theory Spec2Isabelle
  imports Complex_Main
begin

section \<open>JavaScript built-ins used by the components\<close>

text \<open>
  Strings are lists of characters. \<open>String.prototype.includes\<close> searches the receiver
  for the argument, position by position from index 0, and answers true at the first
  position where every character of the argument matches; the empty argument matches at
  position 0 of every receiver.
\<close>

fun matchesAt :: "string \<Rightarrow> string \<Rightarrow> bool" where
  "matchesAt body [] = True"
| "matchesAt [] (k # ks) = False"
| "matchesAt (b # bs) (k # ks) = (b = k \<and> matchesAt bs ks)"

fun includes_str :: "string \<Rightarrow> string \<Rightarrow> bool" where
  "includes_str [] kw = matchesAt [] kw"
| "includes_str (b # bs) kw = (matchesAt (b # bs) kw \<or> includes_str bs kw)"

text \<open>
  \<open>String.prototype.toUpperCase\<close> replaces every character of the string by its
  upper-case form, which is one character or several and does not depend on the
  neighbours of the character. The forms come from the Unicode character database of
  the host, which is no part of the repository: the table \<open>up\<close> is a parameter, and the
  statements about the keyword hold for every table.
\<close>

definition toUpperCase :: "(char \<Rightarrow> string) \<Rightarrow> string \<Rightarrow> string" where
  "toUpperCase up v = concat (map up v)"

text \<open>
  The table on the characters of the model (codes below 256), for the closed instances:
  \<open>a\<close> to \<open>z\<close> and the accented letters E0 to FE (but the division sign F7) move
  down by 32, the sharp s (DF) becomes \<open>SS\<close>, every other character has no form of its
  own. The upper-case forms of y with diaeresis (FF) and of the micro sign (B5) are the
  characters U+0178 and U+039C, which are no characters of the model; the table keeps
  the two, and no statement applies it to them.
\<close>

definition upperLatin1 :: "char \<Rightarrow> string" where
  "upperLatin1 c =
     (let n = (of_char c :: nat)
      in if 97 \<le> n \<and> n \<le> 122 then [char_of (n - 32)]
         else if n = 223 then ''SS''
         else if 224 \<le> n \<and> n \<le> 254 \<and> n \<noteq> 247 then [char_of (n - 32)]
         else [c])"

text \<open>
  \<open>Number.prototype.toString\<close> on a non-negative integer (the value of \<open>Date.now()\<close>):
  its decimal digits, most significant first.
\<close>

definition digit :: "nat \<Rightarrow> char" where
  "digit n = char_of (48 + n)"

fun toString :: "nat \<Rightarrow> string" where
  "toString n = (if n < 10 then [digit n] else toString (n div 10) @ [digit (n mod 10)])"

declare toString.simps [simp del]

section \<open>PhoneFinderApp: keyword, inbox feed and alarm\<close>

text \<open>
  The interface \<open>SmsMessage\<close>. The field \<open>id\<close> is named \<open>id_sms\<close> here (\<open>id\<close> is the
  identity function of HOL); a \<open>Date\<close> is its number of milliseconds.
\<close>

record SmsMessage =
  id_sms :: string
  sender :: string
  message :: string
  timestamp :: nat
  triggered :: bool

text \<open>
  The component's state hooks (\<open>keyword\<close>, \<open>isAlarmActive\<close>, \<open>smsMessages\<close>) together with
  the part of the host the handlers touch: \<open>clock\<close> is what \<open>Date.now()\<close> returns,
  \<open>timers\<close> holds the due time of every callback registered with \<open>setTimeout\<close> that has
  not run yet (in registration order), and \<open>oscillators\<close> counts the oscillators that
  were started and not yet stopped. Toasts are presentation only and are left out.
\<close>

record app =
  keyword :: string
  isAlarmActive :: bool
  smsMessages :: "SmsMessage list"
  clock :: nat
  timers :: "nat list"
  oscillators :: nat

text \<open>The state at mount: the initial values of the \<open>useState\<close> hooks, at clock \<open>now\<close>.\<close>

definition PhoneFinderApp :: "nat \<Rightarrow> app" where
  "PhoneFinderApp now =
     \<lparr>keyword = ''ACHARCELULAR123'', isAlarmActive = False, smsMessages = [],
      clock = now, timers = [], oscillators = 0\<rparr>"

text \<open>
  \<open>activateAlarm\<close>: sets the alarm flag, starts an oscillator and registers a callback
  3000 ms ahead. There is no test of the current flag and no handle of an earlier timer.
\<close>

definition activateAlarm :: "app \<Rightarrow> app" where
  "activateAlarm s =
     s\<lparr>isAlarmActive := True,
       oscillators := oscillators s + 1,
       timers := timers s @ [clock s + 3000]\<rparr>"

text \<open>The callback given to \<open>setTimeout\<close>: stops its oscillator and clears the flag.\<close>

definition alarmTimeout :: "app \<Rightarrow> app" where
  "alarmTimeout s = s\<lparr>oscillators := oscillators s - 1, isAlarmActive := False\<rparr>"

text \<open>
  The host's event loop, on a logical clock: \<open>elapse d s\<close> is the state observed \<open>d\<close>
  milliseconds after \<open>s\<close> when no handler was called in between. Every callback whose
  due time has been reached has run and is no longer pending.
\<close>

definition elapse :: "nat \<Rightarrow> app \<Rightarrow> app" where
  "elapse d s =
     (let t = clock s + d
      in (fold (\<lambda>due. alarmTimeout) (filter (\<lambda>due. due \<le> t) (timers s)) s)
           \<lparr>clock := t, timers := filter (\<lambda>due. t < due) (timers s)\<rparr>)"

text \<open>
  The object literal \<open>newSms\<close> of \<open>simulateIncomingSms\<close>: id and timestamp come from the
  clock, the flag from \<open>message.includes(keyword)\<close> with the keyword of the current state.
\<close>

definition newSms :: "string \<Rightarrow> string \<Rightarrow> app \<Rightarrow> SmsMessage" where
  "newSms sndr msg s =
     \<lparr>id_sms = toString (clock s), sender = sndr, message = msg,
      timestamp = clock s, triggered = includes_str msg (keyword s)\<rparr>"

text \<open>
  \<open>simulateIncomingSms\<close>: the new message goes in front of the first nine held ones
  (\<open>prev.slice(0, 9)\<close>), and the alarm is activated when the flag is set.
\<close>

definition simulateIncomingSms :: "string \<Rightarrow> string \<Rightarrow> app \<Rightarrow> app" where
  "simulateIncomingSms sndr msg s =
     (let sms = newSms sndr msg s;
          s' = s\<lparr>smsMessages := sms # take 9 (smsMessages s)\<rparr>
      in if triggered sms then activateAlarm s' else s')"

text \<open>The \<open>onChange\<close> handler of the keyword input: \<open>setKeyword(e.target.value.toUpperCase())\<close>.\<close>

definition onChangeKeyword :: "(char \<Rightarrow> string) \<Rightarrow> string \<Rightarrow> app \<Rightarrow> app" where
  "onChangeKeyword up v s = s\<lparr>keyword := toUpperCase up v\<rparr>"

text \<open>
  What can happen to the component: a message arrives, the keyword input changes, time
  passes. \<open>run\<close> applies a sequence of events, oldest first; \<open>recorded\<close> lists the
  messages the arrivals of the sequence construct, oldest first. Both take the host's
  upper-case table for the keyword changes of the sequence. The alarm has no other
  caller than the arrival of a message.
\<close>

datatype event = Sms string string | SetKeyword string | Elapse nat

fun step :: "(char \<Rightarrow> string) \<Rightarrow> event \<Rightarrow> app \<Rightarrow> app" where
  "step up (Sms sndr msg) s = simulateIncomingSms sndr msg s"
| "step up (SetKeyword v) s = onChangeKeyword up v s"
| "step up (Elapse d) s = elapse d s"

fun run :: "(char \<Rightarrow> string) \<Rightarrow> event list \<Rightarrow> app \<Rightarrow> app" where
  "run up [] s = s"
| "run up (e # es) s = run up es (step up e s)"

fun recorded :: "(char \<Rightarrow> string) \<Rightarrow> event list \<Rightarrow> app \<Rightarrow> SmsMessage list" where
  "recorded up [] s = []"
| "recorded up (Sms sndr msg # es) s =
     newSms sndr msg s # recorded up es (step up (Sms sndr msg) s)"
| "recorded up (e # es) s = recorded up es (step up e s)"


text \<open>
  White space, for the statement about keyword updates: the white space and line
  terminator characters of ECMAScript (what \<open>String.prototype.trim\<close> removes) with a
  code below 256. The source never tests for them.
\<close>

definition isWhitespace :: "char \<Rightarrow> bool" where
  "isWhitespace c \<longleftrightarrow>
     c \<in> set [CHR 0x09, CHR 0x0A, CHR 0x0B, CHR 0x0C, CHR 0x0D, CHR 0x20, CHR 0xA0]"

section \<open>GpsTracker: location acquisition\<close>

text \<open>
  The reading the platform hands to the success callback (\<open>position.coords\<close>) and the
  interface \<open>LocationData\<close>, which adds the capture time to it. The field \<open>timestamp\<close> of
  \<open>LocationData\<close> is named \<open>timestamp_loc\<close> here.
\<close>

record Coordinates =
  latitude :: real
  longitude :: real
  accuracy :: real

record LocationData = Coordinates +
  timestamp_loc :: nat

text \<open>
  The component's state hooks (\<open>location\<close>, \<open>isTracking\<close>, \<open>error\<close>), the value of the
  prop \<open>isAlarmActive\<close> at the last render, and the host: \<open>geolocation\<close> says whether
  \<open>navigator.geolocation\<close> exists, \<open>requests\<close> counts the calls of
  \<open>navigator.geolocation.getCurrentPosition\<close> made so far and \<open>pending\<close> those of them
  whose callback has not been delivered yet. \<open>calls\<close> counts the invocations of
  \<open>getCurrentLocation\<close>; it is an observer only, no handler reads it.
\<close>

record gps =
  location :: "LocationData option"
  isTracking :: bool
  error :: string
  isAlarmActive_prop :: bool
  geolocation :: bool
  calls :: nat
  requests :: nat
  pending :: nat

text \<open>The codes of a \<open>GeolocationPositionError\<close>.\<close>

definition PERMISSION_DENIED :: nat where "PERMISSION_DENIED = 1"
definition POSITION_UNAVAILABLE :: nat where "POSITION_UNAVAILABLE = 2"
definition TIMEOUT :: nat where "TIMEOUT = 3"

text \<open>
  The messages, character by character; the letters outside ASCII are given by their
  code points (c with cedilla E7, a with tilde E3, i with acute ED).
\<close>

definition unsupportedMessage :: string where
  "unsupportedMessage =
     ''Geolocaliza'' @ [CHR 0xE7, CHR 0xE3] @ ''o n'' @ [CHR 0xE3] @
     ''o suportada neste navegador''"

text \<open>The \<open>switch (error.code)\<close> of the error callback.\<close>

definition errorMessage :: "nat \<Rightarrow> string" where
  "errorMessage code =
     (if code = PERMISSION_DENIED then
        ''Permiss'' @ [CHR 0xE3] @ ''o de localiza'' @ [CHR 0xE7, CHR 0xE3] @ ''o negada''
      else if code = POSITION_UNAVAILABLE then
        ''Localiza'' @ [CHR 0xE7, CHR 0xE3] @ ''o indispon'' @ [CHR 0xED] @ ''vel''
      else if code = TIMEOUT then
        ''Timeout ao obter localiza'' @ [CHR 0xE7, CHR 0xE3] @ ''o''
      else ''Erro desconhecido'')"

text \<open>
  \<open>getCurrentLocation\<close>: without \<open>navigator.geolocation\<close> it sets the error and returns;
  otherwise it sets \<open>isTracking\<close>, clears the error and issues one request. It does not
  read \<open>isTracking\<close>.
\<close>

definition getCurrentLocation :: "gps \<Rightarrow> gps" where
  "getCurrentLocation g =
     (let g' = g\<lparr>calls := calls g + 1\<rparr>
      in if \<not> geolocation g then g'\<lparr>error := unsupportedMessage\<rparr>
         else g'\<lparr>isTracking := True, error := [],
                 requests := requests g + 1, pending := pending g + 1\<rparr>)"

text \<open>
  The body of the effect \<open>useEffect(..., [isAlarmActive, location])\<close>. React runs it
  after the first render and after every render in which one of the two dependencies
  has changed.
\<close>

definition autoLocate :: "gps \<Rightarrow> gps" where
  "autoLocate g =
     (if isAlarmActive_prop g \<and> location g = None then getCurrentLocation g else g)"

text \<open>The component at mount, given the prop and the platform's capability.\<close>

definition GpsTracker :: "bool \<Rightarrow> bool \<Rightarrow> gps" where
  "GpsTracker alarm geo =
     autoLocate
       \<lparr>location = None, isTracking = False, error = [], isAlarmActive_prop = alarm,
        geolocation = geo, calls = 0, requests = 0, pending = 0\<rparr>"

text \<open>
  The parent renders the component again with the prop \<open>isAlarmActive = alarm\<close>: the
  effect runs when the prop differs from the one of the last render.
\<close>

definition render :: "bool \<Rightarrow> gps \<Rightarrow> gps" where
  "render alarm g =
     (if alarm = isAlarmActive_prop g then g
      else autoLocate (g\<lparr>isAlarmActive_prop := alarm\<rparr>))"


text \<open>
  The error callback: stores the message of the code and clears \<open>isTracking\<close>. No
  dependency of the effect changes.
\<close>

definition errorCallback :: "nat \<Rightarrow> gps \<Rightarrow> gps" where
  "errorCallback code g =
     g\<lparr>error := errorMessage code, isTracking := False, pending := pending g - 1\<rparr>"

text \<open>
  The button \<open>onClick={getCurrentLocation} disabled={isTracking}\<close>: a click on the
  disabled button reaches no handler.
\<close>

definition clickButton :: "gps \<Rightarrow> gps" where
  "clickButton g = (if isTracking g then g else getCurrentLocation g)"

text \<open>
  The five failure kinds by name, for the statement about them: \<open>classify\<close> names the
  branch the \<open>switch\<close> takes for a code, \<open>reason\<close> gives the message the source assigns
  for a kind.
\<close>

datatype failure_kind = PermissionDenied | PositionUnavailable | Timeout | Unsupported | Unknown

definition classify :: "nat \<Rightarrow> failure_kind" where
  "classify code =
     (if code = PERMISSION_DENIED then PermissionDenied
      else if code = POSITION_UNAVAILABLE then PositionUnavailable
      else if code = TIMEOUT then Timeout
      else Unknown)"

fun reason :: "failure_kind \<Rightarrow> string" where
  "reason PermissionDenied = errorMessage PERMISSION_DENIED"
| "reason PositionUnavailable = errorMessage POSITION_UNAVAILABLE"
| "reason Timeout = errorMessage TIMEOUT"
| "reason Unsupported = unsupportedMessage"
| "reason Unknown = errorMessage 0"

section \<open>The message matcher\<close>

lemma matchesAt_iff: "matchesAt body kw \<longleftrightarrow> (\<exists>post. body = kw @ post)"
  by (induction body kw rule: matchesAt.induct) auto

lemma includes_iff: "includes_str body kw \<longleftrightarrow> (\<exists>pre post. body = pre @ kw @ post)"
proof (induction body)
  case Nil
  show ?case by (cases kw) auto
next
  case (Cons b bs)
  show ?case
  proof
    assume "includes_str (b # bs) kw"
    then consider "matchesAt (b # bs) kw" | "includes_str bs kw" by auto
    then show "\<exists>pre post. b # bs = pre @ kw @ post"
    proof cases
      case 1
      then obtain post where "b # bs = kw @ post" by (auto simp: matchesAt_iff)
      then have "b # bs = [] @ kw @ post" by simp
      then show ?thesis by blast
    next
      case 2
      then obtain pre post where "bs = pre @ kw @ post" using Cons.IH by auto
      then have "b # bs = (b # pre) @ kw @ post" by simp
      then show ?thesis by blast
    qed
  next
    assume "\<exists>pre post. b # bs = pre @ kw @ post"
    then obtain pre post where eq: "b # bs = pre @ kw @ post" by blast
    show "includes_str (b # bs) kw"
    proof (cases pre)
      case Nil
      then have "matchesAt (b # bs) kw" using eq by (auto simp: matchesAt_iff)
      then show ?thesis by simp
    next
      case (Cons p ps)
      then have "bs = ps @ kw @ post" using eq by simp
      then have "includes_str bs kw" using Cons.IH by blast
      then show ?thesis by simp
    qed
  qed
qed

text \<open>
  Claim C1. The flag computed when a message is recorded is true exactly when the body
  contains the keyword of that moment as a contiguous substring, character for
  character: the body is some prefix, then the keyword, then some suffix. Nothing is
  assumed of the keyword. The body of the spec's scenario matches; the same body with
  the keyword in lowercase does not.
\<close>

theorem matcher_is_substring_test:
  "(includes_str body kw \<longleftrightarrow> (\<exists>pre post. body = pre @ kw @ post)) \<and>
   (triggered (hd (smsMessages (simulateIncomingSms sndr body s))) \<longleftrightarrow>
      (\<exists>pre post. body = pre @ keyword s @ post)) \<and>
   includes_str ''ache meu ACHARCELULAR123 celular'' ''ACHARCELULAR123'' \<and>
   \<not> includes_str ''ache meu acharcelular123 celular'' ''ACHARCELULAR123''"
proof -
  have "smsMessages (simulateIncomingSms sndr body s) =
          newSms sndr body s # take 9 (smsMessages s)"
    by (simp add: simulateIncomingSms_def Let_def activateAlarm_def)
  then have "triggered (hd (smsMessages (simulateIncomingSms sndr body s))) =
          includes_str body (keyword s)"
    by (simp add: newSms_def)
  moreover have "includes_str ''ache meu ACHARCELULAR123 celular'' ''ACHARCELULAR123''"
    by simp
  moreover have "\<not> includes_str ''ache meu acharcelular123 celular'' ''ACHARCELULAR123''"
    by simp
  ultimately show ?thesis by (simp add: includes_iff)
qed

section \<open>Timers and the fields the handlers leave alone\<close>

lemma fold_alarmTimeout_fields:
  "keyword (fold (\<lambda>due. alarmTimeout) xs s) = keyword s"
  "smsMessages (fold (\<lambda>due. alarmTimeout) xs s) = smsMessages s"
  "clock (fold (\<lambda>due. alarmTimeout) xs s) = clock s"
  "timers (fold (\<lambda>due. alarmTimeout) xs s) = timers s"
  by (induction xs arbitrary: s) (simp_all add: alarmTimeout_def)

lemma fold_alarmTimeout_active:
  "isAlarmActive (fold (\<lambda>due. alarmTimeout) xs s) \<longleftrightarrow> xs = [] \<and> isAlarmActive s"
proof (induction xs rule: rev_induct)
  case Nil
  show ?case by simp
next
  case (snoc x xs)
  show ?case by (simp add: alarmTimeout_def)
qed

lemma elapse_fields:
  "keyword (elapse d s) = keyword s"
  "smsMessages (elapse d s) = smsMessages s"
  "clock (elapse d s) = clock s + d"
  "timers (elapse d s) = filter (\<lambda>due. clock s + d < due) (timers s)"
  by (simp_all add: elapse_def Let_def fold_alarmTimeout_fields)

lemma elapse_active:
  "isAlarmActive (elapse d s) \<longleftrightarrow>
     isAlarmActive s \<and> (\<forall>due \<in> set (timers s). clock s + d < due)"
  by (auto simp: elapse_def Let_def fold_alarmTimeout_active filter_empty_conv not_le)

lemma activateAlarm_fields:
  "keyword (activateAlarm s) = keyword s"
  "smsMessages (activateAlarm s) = smsMessages s"
  "clock (activateAlarm s) = clock s"
  "timers (activateAlarm s) = timers s @ [clock s + 3000]"
  "oscillators (activateAlarm s) = oscillators s + 1"
  "isAlarmActive (activateAlarm s)"
  by (simp_all add: activateAlarm_def)

lemma simulateIncomingSms_feed:
  "smsMessages (simulateIncomingSms sndr msg s) = newSms sndr msg s # take 9 (smsMessages s)"
  by (simp add: simulateIncomingSms_def Let_def activateAlarm_def)

section \<open>The inbox feed\<close>

lemma take_feed: "take 10 (xs @ m # take 9 ys) = take 10 (xs @ m # ys)"
  by (cases "10 - length xs") (simp_all add: min_def)

lemma feed_run:
  "length (smsMessages s) \<le> 10 \<Longrightarrow>
   smsMessages (run up evs s) = take 10 (rev (recorded up evs s) @ smsMessages s)"
proof (induction evs arbitrary: s)
  case Nil
  then show ?case by simp
next
  case (Cons e es)
  show ?case
  proof (cases e)
    case (Sms sndr msg)
    have len: "length (smsMessages (step up e s)) \<le> 10"
      using Sms by (simp add: simulateIncomingSms_feed)
    have "smsMessages (run up (e # es) s) =
            take 10 (rev (recorded up es (step up e s)) @
              newSms sndr msg s # take 9 (smsMessages s))"
      using Cons.IH [OF len] Sms by (simp only: run.simps step.simps simulateIncomingSms_feed)
    also have "\<dots> =
            take 10 (rev (recorded up es (step up e s)) @ newSms sndr msg s # smsMessages s)"
      by (rule take_feed)
    also have "\<dots> = take 10 (rev (recorded up (e # es) s) @ smsMessages s)"
      using Sms by simp
    finally show ?thesis .
  next
    case (SetKeyword v)
    have len: "length (smsMessages (step up e s)) \<le> 10"
      using SetKeyword Cons.prems by (simp add: onChangeKeyword_def)
    show ?thesis
      using Cons.IH [OF len] SetKeyword by (simp add: onChangeKeyword_def)
  next
    case (Elapse d)
    have len: "length (smsMessages (step up e s)) \<le> 10"
      using Elapse Cons.prems by (simp add: elapse_fields)
    show ?thesis
      using Cons.IH [OF len] Elapse by (simp add: elapse_fields)
  qed
qed

text \<open>
  Claim C4. Start from the mounted component and let any sequence of events happen
  (arrivals, keyword changes, passing time). The feed is then the list of the messages
  recorded so far, newest first, cut after ten: its length is the smaller of 10 and the
  number of recorded messages, so it never exceeds 10, and with more than ten recorded
  it is exactly the ten newest, the older ones dropped.
\<close>

theorem feed_holds_ten_most_recent:
  "smsMessages (run up evs (PhoneFinderApp now)) =
     take 10 (rev (recorded up evs (PhoneFinderApp now))) \<and>
   length (smsMessages (run up evs (PhoneFinderApp now))) =
     min 10 (length (recorded up evs (PhoneFinderApp now))) \<and>
   length (smsMessages (run up evs (PhoneFinderApp now))) \<le> 10"
proof -
  have "length (smsMessages (PhoneFinderApp now)) \<le> 10"
    by (simp add: PhoneFinderApp_def)
  from feed_run [OF this, of up evs]
  have "smsMessages (run up evs (PhoneFinderApp now)) =
          take 10 (rev (recorded up evs (PhoneFinderApp now)))"
    by (simp add: PhoneFinderApp_def)
  then show ?thesis by simp
qed

section \<open>Message identifiers\<close>

lemma digit_inj: "a < 10 \<Longrightarrow> b < 10 \<Longrightarrow> digit a = digit b \<Longrightarrow> a = b"
proof -
  assume a: "a < 10" and b: "b < 10" and eq: "digit a = digit b"
  from eq have "(of_char (digit a) :: nat) = of_char (digit b)" by simp
  then have "(48 + a) mod 256 = (48 + b) mod 256" by (simp add: digit_def)
  with a b show "a = b" by simp
qed

lemma toString_nonempty: "toString n \<noteq> []"
  by (subst toString.simps) simp

lemma last_toString: "last (toString n) = digit (n mod 10)"
  by (subst toString.simps) simp

lemma butlast_toString: "butlast (toString n) = (if n < 10 then [] else toString (n div 10))"
  by (subst toString.simps) simp

lemma toString_inj: "toString m = toString n \<Longrightarrow> m = n"
proof (induction m arbitrary: n rule: toString.induct)
  case (1 m)
  from "1.prems" have "last (toString m) = last (toString n)" by simp
  then have "digit (m mod 10) = digit (n mod 10)" by (simp add: last_toString)
  then have md: "m mod 10 = n mod 10" by (intro digit_inj) simp_all
  from "1.prems" have bl: "butlast (toString m) = butlast (toString n)" by simp
  show ?case
  proof (cases "m < 10")
    case True
    with bl have "n < 10"
      using toString_nonempty [of "n div 10"] by (auto simp: butlast_toString split: if_splits)
    with True md show ?thesis by simp
  next
    case False
    with bl have n: "\<not> n < 10"
      using toString_nonempty [of "m div 10"] by (auto simp: butlast_toString split: if_splits)
    with False bl have "toString (m div 10) = toString (n div 10)"
      by (simp add: butlast_toString)
    with False have "m div 10 = n div 10" using "1.IH" by blast
    with md show ?thesis by (metis div_mult_mod_eq)
  qed
qed

lemma id_sms_eq_iff:
  "id_sms (newSms a b s) = id_sms (newSms a' b' s') \<longleftrightarrow> clock s = clock s'"
  by (auto simp: newSms_def dest: toString_inj)

text \<open>
  Claim C9 asks for different ids on different messages, also on two recorded in
  immediate succession. The code does not deliver it, although it uses the id as the
  key of the rows of the feed. Here it is run where the claim fails: two arrivals with
  no millisecond passing between them. The feed then holds two messages of different
  senders whose ids are both \<open>0\<close>, the rendering of the clock, so the list of the keys
  has a repetition.
\<close>

theorem same_millisecond_ids_collide:
  "map sender (smsMessages
     (simulateIncomingSms ''b'' ''y'' (simulateIncomingSms ''a'' ''x'' (PhoneFinderApp 0))))
     = [''b'', ''a''] \<and>
   map id_sms (smsMessages
     (simulateIncomingSms ''b'' ''y'' (simulateIncomingSms ''a'' ''x'' (PhoneFinderApp 0))))
     = [''0'', ''0''] \<and>
   \<not> distinct (map id_sms (smsMessages
     (simulateIncomingSms ''b'' ''y'' (simulateIncomingSms ''a'' ''x'' (PhoneFinderApp 0)))))"
proof -
  have "toString 0 = ''0''"
    by code_simp
  then show ?thesis
    by (simp add: PhoneFinderApp_def simulateIncomingSms_def newSms_def Let_def)
qed

section \<open>The keyword\<close>

lemma toUpperCase_Nil: "toUpperCase up [] = []"
  by (simp add: toUpperCase_def)

lemma toUpperCase_fixed: "\<forall>c \<in> set v. up c = [c] \<Longrightarrow> toUpperCase up v = v"
  by (induction v) (simp_all add: toUpperCase_def)

lemma toUpperCase_whitespace:
  "\<forall>c. isWhitespace c \<longrightarrow> up c = [c] \<Longrightarrow> list_all isWhitespace v \<Longrightarrow> toUpperCase up v = v"
  by (rule toUpperCase_fixed) (simp add: list_all_iff)

lemma upperLatin1_whitespace: "isWhitespace c \<Longrightarrow> upperLatin1 c = [c]"
  by (auto simp: isWhitespace_def upperLatin1_def)

text \<open>
  Claim C2, as amended. Every change of the keyword input is accepted, whatever the new
  value and whatever the keyword before: the keyword becomes the new value in upper
  case. For the empty value that is the empty string; for a value of white space only
  it is that value itself, white space having no upper-case form of its own. The flag
  of a message recorded afterwards is computed with the stored keyword.
\<close>

theorem keyword_update_always_accepted:
  "keyword (onChangeKeyword up v s) = toUpperCase up v \<and>
   keyword (onChangeKeyword up [] s) = [] \<and>
   ((\<forall>c. isWhitespace c \<longrightarrow> up c = [c]) \<and> list_all isWhitespace v \<longrightarrow>
      keyword (onChangeKeyword up v s) = v) \<and>
   (triggered (newSms sndr body (onChangeKeyword up v s)) \<longleftrightarrow>
      includes_str body (toUpperCase up v))"
proof -
  have "keyword (onChangeKeyword up v s) = toUpperCase up v"
    by (simp add: onChangeKeyword_def)
  moreover have "keyword (onChangeKeyword up [] s) = []"
    by (simp add: onChangeKeyword_def toUpperCase_Nil)
  moreover have "triggered (newSms sndr body (onChangeKeyword up v s)) \<longleftrightarrow>
      includes_str body (toUpperCase up v)"
    by (simp add: onChangeKeyword_def newSms_def)
  ultimately show ?thesis
    using toUpperCase_whitespace [of up v] by auto
qed

theorem keyword_update_always_accepted_witness:
  "toUpperCase upperLatin1 [CHR 0x09, CHR 0x0A, CHR 0x0B, CHR 0x0C, CHR 0x0D, CHR 0x20, CHR 0xA0] =
     [CHR 0x09, CHR 0x0A, CHR 0x0B, CHR 0x0C, CHR 0x0D, CHR 0x20, CHR 0xA0] \<and>
   list_all isWhitespace ''   '' \<and>
   keyword (onChangeKeyword upperLatin1 ''   '' (PhoneFinderApp 0)) = ''   '' \<and>
   keyword (onChangeKeyword upperLatin1 [] (PhoneFinderApp 0)) = [] \<and>
   keyword (onChangeKeyword upperLatin1 ''acharCelular 123'' (PhoneFinderApp 0)) =
     ''ACHARCELULAR 123''"
proof -
  have w: "\<forall>c. isWhitespace c \<longrightarrow> upperLatin1 c = [c]"
    by (simp add: upperLatin1_whitespace)
  have l: "list_all isWhitespace ''   ''"
    by (simp add: isWhitespace_def)
  have u: "toUpperCase upperLatin1 ''acharCelular 123'' = ''ACHARCELULAR 123''"
    by code_simp
  note A = keyword_update_always_accepted [of upperLatin1 "''   ''" "PhoneFinderApp 0"]
  note B = keyword_update_always_accepted
    [of upperLatin1 "''acharCelular 123''" "PhoneFinderApp 0"]
  from A w l have 1: "keyword (onChangeKeyword upperLatin1 ''   '' (PhoneFinderApp 0)) = ''   ''"
    by blast
  from A have 2: "keyword (onChangeKeyword upperLatin1 [] (PhoneFinderApp 0)) = []"
    by blast
  from B u have 3: "keyword (onChangeKeyword upperLatin1 ''acharCelular 123'' (PhoneFinderApp 0)) =
      ''ACHARCELULAR 123''"
    by simp
  have f: "toUpperCase upperLatin1 [CHR 0x09, CHR 0x0A, CHR 0x0B, CHR 0x0C, CHR 0x0D, CHR 0x20, CHR 0xA0] =
      [CHR 0x09, CHR 0x0A, CHR 0x0B, CHR 0x0C, CHR 0x0D, CHR 0x20, CHR 0xA0]"
    by (rule toUpperCase_fixed) (simp add: upperLatin1_whitespace isWhitespace_def)
  from f l 1 2 3 show ?thesis by blast
qed

text \<open>
  Claim C2 as stated fails: from the mounted component (keyword \<open>ACHARCELULAR123\<close>) the
  empty value and the value of three spaces both replace the keyword, and a body that
  did not match before the empty update matches after it.
\<close>

theorem keyword_update_counterexample:
  "keyword (onChangeKeyword upperLatin1 [] (PhoneFinderApp 0)) \<noteq> keyword (PhoneFinderApp 0) \<and>
   keyword (onChangeKeyword upperLatin1 ''   '' (PhoneFinderApp 0)) \<noteq> keyword (PhoneFinderApp 0) \<and>
   \<not> triggered (newSms ''unknown'' ''oi, tudo bem?'' (PhoneFinderApp 0)) \<and>
   triggered (newSms ''unknown'' ''oi, tudo bem?''
     (onChangeKeyword upperLatin1 [] (PhoneFinderApp 0)))"
  by (simp add: onChangeKeyword_def PhoneFinderApp_def toUpperCase_def upperLatin1_def
      newSms_def)

text \<open>
  Claim C10. The keyword input can be emptied: the empty value is stored as the
  keyword. While the keyword is empty every body contains it, so every message
  recorded then has its flag set and recording it activates the alarm.
\<close>

theorem empty_keyword_matches_every_body:
  "keyword (onChangeKeyword up [] s0) = [] \<and>
   (keyword s = [] \<longrightarrow>
      includes_str body (keyword s) \<and>
      triggered (hd (smsMessages (simulateIncomingSms sndr body s))) \<and>
      simulateIncomingSms sndr body s =
        activateAlarm (s\<lparr>smsMessages := newSms sndr body s # take 9 (smsMessages s)\<rparr>) \<and>
      isAlarmActive (simulateIncomingSms sndr body s))"
proof -
  have e: "includes_str body []" for body
    by (cases body) simp_all
  have "keyword (onChangeKeyword up [] s0) = []"
    by (simp add: onChangeKeyword_def toUpperCase_def)
  moreover have "triggered (newSms sndr body s)" if "keyword s = []"
    using that e by (simp add: newSms_def)
  ultimately show ?thesis
    using e by (auto simp: simulateIncomingSms_def Let_def activateAlarm_def)
qed

theorem empty_keyword_matches_every_body_witness:
  "keyword (onChangeKeyword upperLatin1 [] (PhoneFinderApp 0)) = [] \<and>
   includes_str ''oi, tudo bem?'' (keyword (onChangeKeyword upperLatin1 [] (PhoneFinderApp 0))) \<and>
   triggered (hd (smsMessages
     (simulateIncomingSms ''unknown'' ''oi, tudo bem?''
       (onChangeKeyword upperLatin1 [] (PhoneFinderApp 0))))) \<and>
   isAlarmActive
     (simulateIncomingSms ''unknown'' ''oi, tudo bem?''
       (onChangeKeyword upperLatin1 [] (PhoneFinderApp 0)))"
  using empty_keyword_matches_every_body
    [of upperLatin1 "PhoneFinderApp 0" "onChangeKeyword upperLatin1 [] (PhoneFinderApp 0)"
        "''oi, tudo bem?''" "''unknown''"]
  by blast

section \<open>The alarm\<close>










text \<open>
  Claim C7, as amended. Let the alarm be activated with no countdown of an earlier
  activation pending. It is active at once, and \<open>d\<close> ms later, with no further event,
  it is active exactly when \<open>d < 3000\<close>: active at every moment before 3000 ms, idle
  at 3000 ms. The flag has no third value.
\<close>

theorem alarm_window:
  "timers s = [] \<Longrightarrow>
   isAlarmActive (activateAlarm s) \<and>
   (isAlarmActive (elapse d (activateAlarm s)) \<longleftrightarrow> d < 3000)"
  by (auto simp: elapse_active activateAlarm_fields)

theorem alarm_window_witness:
  "timers (PhoneFinderApp 0) = [] \<and>
   isAlarmActive (activateAlarm (PhoneFinderApp 0)) \<and>
   isAlarmActive (elapse 2999 (activateAlarm (PhoneFinderApp 0))) \<and>
   \<not> isAlarmActive (elapse 3000 (activateAlarm (PhoneFinderApp 0)))"
  using alarm_window [of "PhoneFinderApp 0" 2999] alarm_window [of "PhoneFinderApp 0" 3000]
  by (simp add: PhoneFinderApp_def)

text \<open>
  Claim C7 as stated fails: after a match, a second match 2000 ms later and another
  1000 ms the alarm is idle with the second countdown still pending; activated then, it
  is idle again 2000 ms after entry.
\<close>

theorem alarm_window_counterexample:
  "\<not> isAlarmActive
      (run upperLatin1
          [Sms ''a'' ''ACHARCELULAR123'', Elapse 2000, Sms ''a'' ''ACHARCELULAR123'', Elapse 1000]
        (PhoneFinderApp 0)) \<and>
   isAlarmActive
      (activateAlarm
        (run upperLatin1
          [Sms ''a'' ''ACHARCELULAR123'', Elapse 2000, Sms ''a'' ''ACHARCELULAR123'', Elapse 1000]
          (PhoneFinderApp 0))) \<and>
   \<not> isAlarmActive
      (elapse 2000 (activateAlarm
        (run upperLatin1
          [Sms ''a'' ''ACHARCELULAR123'', Elapse 2000, Sms ''a'' ''ACHARCELULAR123'', Elapse 1000]
          (PhoneFinderApp 0))))"
  by (simp add: PhoneFinderApp_def simulateIncomingSms_def newSms_def activateAlarm_def
      elapse_def alarmTimeout_def Let_def)

section \<open>Location acquisition\<close>




lemma reason_inj: "reason k = reason k' \<longleftrightarrow> k = k'"
  by (cases k; cases k')
    (simp_all add: errorMessage_def unsupportedMessage_def PERMISSION_DENIED_def
      POSITION_UNAVAILABLE_def TIMEOUT_def)

text \<open>
  Claim C6. The five kinds have pairwise different messages. The error callback stores
  the message of the kind of its code, which is never \<open>Unsupported\<close>, and neither
  invokes \<open>getCurrentLocation\<close> nor issues a request, nor does the render after it.
  Without \<open>navigator.geolocation\<close> the acquisition stores the message of \<open>Unsupported\<close>
  and issues no request: the counts of requests and of pending requests and the
  in-progress flag stay as they were.
\<close>

theorem failures_are_classified:
  "(reason k = reason k' \<longleftrightarrow> k = k') \<and>
   errorMessage code = reason (classify code) \<and>
   classify code \<noteq> Unsupported \<and>
   error (errorCallback code g) = reason (classify code) \<and>
   calls (errorCallback code g) = calls g \<and>
   requests (errorCallback code g) = requests g \<and>
   render (isAlarmActive_prop g) (errorCallback code g) = errorCallback code g \<and>
   (\<not> geolocation g \<longrightarrow>
      error (getCurrentLocation g) = reason Unsupported \<and>
      requests (getCurrentLocation g) = requests g \<and>
      pending (getCurrentLocation g) = pending g \<and>
      isTracking (getCurrentLocation g) = isTracking g)"
proof -
  have "errorMessage code = reason (classify code)"
    by (simp add: classify_def) (simp add: errorMessage_def PERMISSION_DENIED_def
      POSITION_UNAVAILABLE_def TIMEOUT_def)
  moreover have "classify code \<noteq> Unsupported"
    by (simp add: classify_def)
  moreover have "render (isAlarmActive_prop g) (errorCallback code g) = errorCallback code g"
    by (simp add: render_def errorCallback_def)
  ultimately show ?thesis
    by (simp add: reason_inj errorCallback_def getCurrentLocation_def Let_def)
qed

theorem failures_are_classified_witness:
  "\<not> geolocation (GpsTracker False False) \<and>
   error (getCurrentLocation (GpsTracker False False)) = unsupportedMessage \<and>
   requests (getCurrentLocation (GpsTracker False False)) = requests (GpsTracker False False) \<and>
   pending (getCurrentLocation (GpsTracker False False)) = pending (GpsTracker False False) \<and>
   error (errorCallback TIMEOUT (getCurrentLocation (GpsTracker False True))) = reason Timeout \<and>
   requests (errorCallback TIMEOUT (getCurrentLocation (GpsTracker False True))) =
     requests (getCurrentLocation (GpsTracker False True))"
proof -
  have g: "\<not> geolocation (GpsTracker False False)"
    by (simp add: GpsTracker_def autoLocate_def)
  have c: "classify TIMEOUT = Timeout"
    by (simp add: classify_def PERMISSION_DENIED_def POSITION_UNAVAILABLE_def TIMEOUT_def)
  note A = failures_are_classified [of Unknown Unknown TIMEOUT "GpsTracker False False"]
  note B = failures_are_classified
    [of Unknown Unknown TIMEOUT "getCurrentLocation (GpsTracker False True)"]
  from A g have 1: "error (getCurrentLocation (GpsTracker False False)) = reason Unsupported \<and>
      requests (getCurrentLocation (GpsTracker False False)) = requests (GpsTracker False False) \<and>
      pending (getCurrentLocation (GpsTracker False False)) = pending (GpsTracker False False)"
    by blast
  from B have 2: "error (errorCallback TIMEOUT (getCurrentLocation (GpsTracker False True))) =
      reason (classify TIMEOUT) \<and>
      requests (errorCallback TIMEOUT (getCurrentLocation (GpsTracker False True))) =
        requests (getCurrentLocation (GpsTracker False True))"
    by blast
  from g 1 2 show ?thesis by (simp only: c reason.simps) blast
qed

text \<open>
  Claim C8, as amended. On a platform with geolocation every invocation of
  \<open>getCurrentLocation\<close> sets the in-progress flag and issues a new request, whether or
  not one is pending. Only the button is guarded: a click while the flag is set is
  ignored.
\<close>

theorem acquisition_guarded_by_button_only:
  "(geolocation g \<longrightarrow>
      isTracking (getCurrentLocation g) \<and>
      pending (getCurrentLocation g) = pending g + 1 \<and>
      requests (getCurrentLocation g) = requests g + 1) \<and>
   (isTracking g \<longrightarrow> clickButton g = g)"
  by (simp add: getCurrentLocation_def clickButton_def Let_def)

theorem acquisition_guarded_by_button_only_witness:
  "geolocation (clickButton (GpsTracker False True)) \<and>
   isTracking (clickButton (GpsTracker False True)) \<and>
   pending (clickButton (GpsTracker False True)) = 1 \<and>
   pending (getCurrentLocation (clickButton (GpsTracker False True))) = 2 \<and>
   requests (getCurrentLocation (clickButton (GpsTracker False True))) = 2 \<and>
   clickButton (clickButton (GpsTracker False True)) = clickButton (GpsTracker False True)"
  using acquisition_guarded_by_button_only [of "clickButton (GpsTracker False True)"]
  by (simp add: GpsTracker_def autoLocate_def clickButton_def getCurrentLocation_def Let_def)

text \<open>
  Claim C8 as stated fails: after a click on the button the alarm prop turns on with no
  location held yet, and the effect issues a second request while the first is pending;
  when one of the two fails, the flag is cleared while the other is still pending.
\<close>

theorem second_request_counterexample:
  "isTracking (clickButton (GpsTracker False True)) \<and>
   pending (clickButton (GpsTracker False True)) = 1 \<and>
   pending (render True (clickButton (GpsTracker False True))) = 2 \<and>
   requests (render True (clickButton (GpsTracker False True))) = 2 \<and>
   pending (errorCallback 3 (render True (clickButton (GpsTracker False True)))) = 1 \<and>
   \<not> isTracking (errorCallback 3 (render True (clickButton (GpsTracker False True))))"
  by (simp add: GpsTracker_def autoLocate_def clickButton_def render_def getCurrentLocation_def
      errorCallback_def Let_def)

end
